theory Spec2Isabelle
  imports Complex_Main "HOL-Library.Sublist"
begin

section \<open>Python values, exceptions and effects\<close>

text \<open>
  The two scripts under \<^verbatim>\<open>experiments/\<close> are embedded as HOL functions.
  Values that the scripts pass around without looking inside them (tensors, images,
  model objects) are type variables; the framework calls made on them are fields of an
  environment record. Python floats are modelled by \<^typ>\<open>real\<close>: rounding, infinities
  and NaN are outside the model.
\<close>

datatype pyval = PNone | PBool bool | PInt int | PFloat real | PStr string

datatype error =
    SystemExit
  | AttributeError
  | TypeError
  | ValueError
  | KeyError
  | IndexError
  | ZeroDivisionError
  | NotImplementedError
  | RuntimeError
  | Raised string

text \<open>
  A run of a piece of code is the list of effects it had on the outside world, in order,
  and either the exception that ended it or its value.
\<close>

type_synonym ('ev, 'a) run = "'ev list \<times> (error + 'a)"

definition ret :: "'a \<Rightarrow> ('ev, 'a) run" where
  "ret x = ([], Inr x)"

definition emit :: "'ev \<Rightarrow> ('ev, unit) run" where
  "emit ev = ([ev], Inr ())"

definition lift :: "error + 'a \<Rightarrow> ('ev, 'a) run" where
  "lift r = ([], r)"

fun then_run :: "('ev, 'a) run \<Rightarrow> ('a \<Rightarrow> ('ev, 'b) run) \<Rightarrow> ('ev, 'b) run" where
  "then_run (t, Inl e) f = (t, Inl e)"
| "then_run (t, Inr x) f = (case f x of (t', r) \<Rightarrow> (t @ t', r))"

definition bindE :: "error + 'a \<Rightarrow> ('a \<Rightarrow> error + 'b) \<Rightarrow> error + 'b" where
  "bindE m f = (case m of Inl e \<Rightarrow> Inl e | Inr x \<Rightarrow> f x)"

subsection \<open>Attribute access and string operations\<close>

type_synonym namespace = "string \<rightharpoonup> pyval"

definition getattr :: "namespace \<Rightarrow> string \<Rightarrow> error + pyval" where
  "getattr ns name = (case ns name of None \<Rightarrow> Inl AttributeError | Some v \<Rightarrow> Inr v)"

text \<open>\<^verbatim>\<open>needle in x\<close>: substring test on a string, TypeError on a value that is no container.\<close>

definition py_in :: "string \<Rightarrow> pyval \<Rightarrow> error + bool" where
  "py_in needle x = (case x of PStr s \<Rightarrow> Inr (sublist needle s) | _ \<Rightarrow> Inl TypeError)"

text \<open>\<^verbatim>\<open>x + y\<close> where the script concatenates strings.\<close>

definition py_concat :: "pyval \<Rightarrow> pyval \<Rightarrow> error + pyval" where
  "py_concat x y = (case (x, y) of (PStr a, PStr b) \<Rightarrow> Inr (PStr (a @ b)) | _ \<Rightarrow> Inl TypeError)"

section \<open>argparse\<close>

text \<open>
  \<^verbatim>\<open>add_argument\<close> is called with one long option string each time; the attribute name
  is derived from it as argparse does (leading dashes stripped, inner dashes turned into
  underscores). The namespace starts from the defaults and every option met on the command
  line assigns its attribute. Options may be abbreviated to a unique prefix and may carry
  their value after \<^verbatim>\<open>=\<close>; \<^verbatim>\<open>-h\<close> and \<^verbatim>\<open>--help\<close> end the process, as does every usage
  error. The builtins \<^verbatim>\<open>int\<close> and \<^verbatim>\<open>float\<close> that convert the values are parameters.
  The token after a value-taking option is taken as its value whatever it looks like, so the
  model accepts every command line that argparse accepts.
\<close>

datatype argtype = TInt | TFloat | TStr

datatype action = StoreTrue | Store argtype

record argument =
  flag :: string
  action :: action
  dflt :: pyval
  choices :: "string list option"

record builtins =
  py_int :: "string \<Rightarrow> int option"
  py_float :: "string \<Rightarrow> real option"
  py_format :: "string \<Rightarrow> pyval \<Rightarrow> string"

text \<open>
  A replacement field of an f-string: \<^verbatim>\<open>{x}\<close> has the empty format specification; a
  string is inserted as it is, every other value as the builtin \<^verbatim>\<open>format\<close> renders it.
\<close>

definition fstr :: "'z builtins_scheme \<Rightarrow> string \<Rightarrow> pyval \<Rightarrow> string" where
  "fstr bi spec x = (case (x, spec) of (PStr s, []) \<Rightarrow> s | _ \<Rightarrow> py_format bi spec x)"

definition dest :: "argument \<Rightarrow> string" where
  "dest a = map (\<lambda>c. if c = CHR ''-'' then CHR ''_'' else c) (dropWhile (\<lambda>c. c = CHR ''-'') (flag a))"

definition defaults :: "argument list \<Rightarrow> namespace" where
  "defaults specs = map_of (map (\<lambda>a. (dest a, dflt a)) specs)"

definition split_eq :: "string \<Rightarrow> string \<times> string option" where
  "split_eq tok =
     (case dropWhile (\<lambda>c. c \<noteq> CHR ''='') tok of
        [] \<Rightarrow> (tok, None)
      | _ # v \<Rightarrow> (takeWhile (\<lambda>c. c \<noteq> CHR ''='') tok, Some v))"

datatype matched = Help | Opt argument "string option"

definition find_option :: "argument list \<Rightarrow> string \<Rightarrow> matched option" where
  "find_option specs tok =
     (if tok = ''-h'' \<or> tok = ''--help'' then Some Help
      else case find (\<lambda>a. flag a = tok) specs of
        Some a \<Rightarrow> Some (Opt a None)
      | None \<Rightarrow>
         (if \<not> prefix ''--'' tok then None
          else let (name, explicit) = split_eq tok in
            case find (\<lambda>a. flag a = name) specs of
              Some a \<Rightarrow> Some (Opt a explicit)
            | None \<Rightarrow>
               (case (filter (\<lambda>a. prefix name (flag a)) specs, prefix name ''--help'') of
                  ([], True) \<Rightarrow> Some Help
                | ([a], False) \<Rightarrow> Some (Opt a explicit)
                | _ \<Rightarrow> None)))"

definition convert :: "'z builtins_scheme \<Rightarrow> argument \<Rightarrow> string \<Rightarrow> pyval option" where
  "convert bi a s =
     (let v = (case action a of
                 Store TInt \<Rightarrow> map_option PInt (py_int bi s)
               | Store TFloat \<Rightarrow> map_option PFloat (py_float bi s)
               | _ \<Rightarrow> Some (PStr s))
      in case (v, choices a) of
           (Some pv, Some cs) \<Rightarrow> (if pv \<in> set (map PStr cs) then Some pv else None)
         | _ \<Rightarrow> v)"

fun parse_known :: "'z builtins_scheme \<Rightarrow> argument list \<Rightarrow> namespace \<Rightarrow> string list \<Rightarrow> error + namespace" where
  "parse_known bi specs ns [] = Inr ns"
| "parse_known bi specs ns (tok # rest) =
     (if tok = ''--'' \<and> rest = [] then Inr ns
      else case find_option specs tok of
        None \<Rightarrow> Inl SystemExit
      | Some Help \<Rightarrow> Inl SystemExit
      | Some (Opt a explicit) \<Rightarrow>
         (case action a of
            StoreTrue \<Rightarrow>
              (case explicit of
                 Some _ \<Rightarrow> Inl SystemExit
               | None \<Rightarrow> parse_known bi specs (ns(dest a \<mapsto> PBool True)) rest)
          | Store _ \<Rightarrow>
              (case explicit of
                 Some s \<Rightarrow>
                   (case convert bi a s of
                      None \<Rightarrow> Inl SystemExit
                    | Some v \<Rightarrow> parse_known bi specs (ns(dest a \<mapsto> v)) rest)
               | None \<Rightarrow>
                   (case rest of
                      [] \<Rightarrow> Inl SystemExit
                    | s # rest' \<Rightarrow>
                        (case convert bi a s of
                           None \<Rightarrow> Inl SystemExit
                         | Some v \<Rightarrow> parse_known bi specs (ns(dest a \<mapsto> v)) rest')))))"

definition argparse :: "'z builtins_scheme \<Rightarrow> argument list \<Rightarrow> string list \<Rightarrow> error + namespace" where
  "argparse bi specs argv = parse_known bi specs (defaults specs) argv"

definition store_true :: "string \<Rightarrow> argument" where
  "store_true f = \<lparr>flag = f, action = StoreTrue, dflt = PBool False, choices = None\<rparr>"

definition store :: "string \<Rightarrow> argtype \<Rightarrow> pyval \<Rightarrow> argument" where
  "store f ty d = \<lparr>flag = f, action = Store ty, dflt = d, choices = None\<rparr>"

definition store_choice :: "string \<Rightarrow> string list \<Rightarrow> pyval \<Rightarrow> argument" where
  "store_choice f cs d = \<lparr>flag = f, action = Store TStr, dflt = d, choices = Some cs\<rparr>"

section \<open>precomp\_vsts\_emb.py\<close>

subsection \<open>parse\_args\<close>

definition model_choices :: "string list" where
  "model_choices = [''vse++'', ''univse'', ''simp_univse'']"

definition modality_choices :: "string list" where
  "modality_choices = [''img'', ''sent'', ''cap'', ''comp'', ''sent+img'', ''cap+img'', ''comp+img'']"

definition precomp_arguments :: "argument list" where
  "precomp_arguments =
     [store_choice ''--model'' model_choices (PStr ''univse''),
      store_choice ''--modality'' modality_choices (PStr ''sent''),
      store ''--data-path'' TStr PNone,
      store ''--model-path'' TStr PNone,
      store ''--graph-path'' TStr PNone,
      store ''--output-path'' TStr PNone,
      store ''--vocab-path'' TStr PNone]"

definition precomp_parse_args :: "'z builtins_scheme \<Rightarrow> string list \<Rightarrow> error + namespace" where
  "precomp_parse_args bi argv = argparse bi precomp_arguments argv"

text \<open>
  What the parser guarantees of the attributes: a value of an option with choices is one of
  the choices, and a path is a string or, when the option was not given, \<^verbatim>\<open>None\<close>.
\<close>

definition one_of :: "string list \<Rightarrow> pyval option \<Rightarrow> bool" where
  "one_of cs v = (case v of Some (PStr s) \<Rightarrow> s \<in> set cs | _ \<Rightarrow> False)"

definition str_or_none :: "pyval option \<Rightarrow> bool" where
  "str_or_none v = (case v of Some PNone \<Rightarrow> True | Some (PStr s) \<Rightarrow> True | _ \<Rightarrow> False)"

definition precomp_namespace :: "namespace \<Rightarrow> bool" where
  "precomp_namespace ns =
     (one_of model_choices (ns ''model'') \<and> one_of modality_choices (ns ''modality'')
      \<and> str_or_none (ns ''data_path'') \<and> str_or_none (ns ''model_path'')
      \<and> str_or_none (ns ''graph_path'') \<and> str_or_none (ns ''output_path'')
      \<and> str_or_none (ns ''vocab_path''))"

subsection \<open>Effects, data and framework calls\<close>

datatype 'a ndarray = Arr1 "'a list" | Arr2 "'a list list"

text \<open>
  The effects of both scripts: console output, the calls that read data and models from
  disk, every forward pass and optimiser step, and the files written.
\<close>

datatype ('a, 'w) event =
    Print string
  | LoadData string "pyval list"
  | LoadModel string "pyval list"
  | ModelCall
  | OptimStep
  | Mkdir string
  | NpSave string "'a ndarray"
  | TorchSave string 'w
  | SaveFig string "real list" "real list"
  | PickleDump string "(string \<times> real list) list"

text \<open>
  Modelled from the spec: the module \<^verbatim>\<open>data/vsts_dataset.py\<close> is not part of the
  sources. A similarity dataset row is (image, sentence, image, sentence, similarity score).
\<close>

type_synonym ('i, 'a) vsts_row = "'i \<times> string \<times> 'i \<times> string \<times> 'a"

text \<open>
  A batch as torch's default collate function builds it from a list of rows: the fields
  are collected position by position.
\<close>

type_synonym ('i, 'a) vsts_batch = "'i list \<times> string list \<times> 'i list \<times> string list \<times> 'a list"

definition default_collate :: "('i, 'a) vsts_row list \<Rightarrow> ('i, 'a) vsts_batch" where
  "default_collate rows =
     (map (\<lambda>(i1, s1, i2, s2, sim). i1) rows,
      map (\<lambda>(i1, s1, i2, s2, sim). s1) rows,
      map (\<lambda>(i1, s1, i2, s2, sim). i2) rows,
      map (\<lambda>(i1, s1, i2, s2, sim). s2) rows,
      map (\<lambda>(i1, s1, i2, s2, sim). sim) rows)"

text \<open>
  The framework and the repository modules that are not in the sources:
  \<^verbatim>\<open>vsts.VstsCaptions\<close> with its \<^verbatim>\<open>__len__\<close> and \<^verbatim>\<open>__getitem__\<close>, the two \<^verbatim>\<open>UniVSE\<close>
  classes with \<^verbatim>\<open>from_filename\<close>, \<^verbatim>\<open>load_model\<close>, \<^verbatim>\<open>vocabulary_encoder.add_graphs\<close> and the
  forward pass (in evaluation mode, on the chosen device), \<^verbatim>\<open>os.path.exists\<close> on the file
  system the script starts with, and how numpy prints a shape. An embedding is a
  two-dimensional tensor, a list of rows; the forward pass returns a dictionary of embeddings.
\<close>

record ('d, 'i, 'a, 'm) precomp_env = builtins +
  VstsCaptions :: "pyval \<Rightarrow> error + 'd"
  vsts_len :: "'d \<Rightarrow> nat"
  vsts_getitem :: "'d \<Rightarrow> nat \<Rightarrow> error + ('i, 'a) vsts_row"
  simp_univse_from_filename :: "pyval \<Rightarrow> error + 'm"
  univse_from_filename :: "pyval \<Rightarrow> error + 'm"
  load_model :: "'m \<Rightarrow> pyval \<Rightarrow> error + 'm"
  add_graphs :: "'m \<Rightarrow> pyval \<Rightarrow> error + 'm"
  forward :: "'m \<Rightarrow> 'i list \<Rightarrow> string list \<Rightarrow> error + (string \<rightharpoonup> 'a list list)"
  path_exists :: "string \<Rightarrow> bool"
  shape_repr :: "'a ndarray \<Rightarrow> string"

text \<open>
  \<^verbatim>\<open>data.DataLoader(dataset, batch_size=n, shuffle=False)\<close>: the indices in dataset order,
  \<open>n\<close> at a time, the last batch possibly shorter. A batch is fetched when the loop reaches
  it: its rows are read one after the other and collated, and an exception raised by the
  dataset surfaces at that point of the iteration.
\<close>

function chunks :: "nat \<Rightarrow> 'r list \<Rightarrow> 'r list list" where
  "chunks n xs = (if n = 0 \<or> xs = [] then [] else take n xs # chunks n (drop n xs))"
  by pat_completeness auto
termination
  by (relation "measure (\<lambda>(n, xs). length xs)") auto

fun fetch_rows ::
  "('d, 'i, 'a, 'm, 'z) precomp_env_scheme \<Rightarrow> 'd \<Rightarrow> nat list \<Rightarrow> error + ('i, 'a) vsts_row list" where
  "fetch_rows env dataset [] = Inr []"
| "fetch_rows env dataset (i # is) =
     (case vsts_getitem env dataset i of
        Inl e \<Rightarrow> Inl e
      | Inr row \<Rightarrow>
         (case fetch_rows env dataset is of Inl e \<Rightarrow> Inl e | Inr rows \<Rightarrow> Inr (row # rows)))"

definition fetch ::
  "('d, 'i, 'a, 'm, 'z) precomp_env_scheme \<Rightarrow> 'd \<Rightarrow> nat list \<Rightarrow> error + ('i, 'a) vsts_batch" where
  "fetch env dataset indices =
     (case fetch_rows env dataset indices of Inl e \<Rightarrow> Inl e | Inr rows \<Rightarrow> Inr (default_collate rows))"

definition DataLoader ::
  "('d, 'i, 'a, 'm, 'z) precomp_env_scheme \<Rightarrow> 'd \<Rightarrow> nat \<Rightarrow> (error + ('i, 'a) vsts_batch) list" where
  "DataLoader env dataset batch_size =
     map (fetch env dataset) (chunks batch_size [0..<vsts_len env dataset])"

text \<open>\<^verbatim>\<open>d[key]\<close> on a dictionary.\<close>

definition getitem :: "(string \<rightharpoonup> 'v) \<Rightarrow> string \<Rightarrow> error + 'v" where
  "getitem d key = (case d key of None \<Rightarrow> Inl KeyError | Some v \<Rightarrow> Inr v)"

text \<open>
  \<^verbatim>\<open>torch.cat((x, y), dim=1)\<close> on two-dimensional tensors: the rows are joined pairwise;
  the tensors must have the same number of rows.
\<close>

definition torch_cat :: "'a list list \<Rightarrow> 'a list list \<Rightarrow> error + 'a list list" where
  "torch_cat x y = (if length x = length y then Inr (map2 (@) x y) else Inl RuntimeError)"

text \<open>\<^verbatim>\<open>x.data.cpu().numpy()[0]\<close> and \<^verbatim>\<open>sim.data.numpy()[0]\<close>.\<close>

definition index0 :: "'x list \<Rightarrow> error + 'x" where
  "index0 x = (case x of [] \<Rightarrow> Inl IndexError | r # _ \<Rightarrow> Inr r)"

text \<open>\<^verbatim>\<open>os.path.exists(p)\<close>, and \<^verbatim>\<open>np.save(p, arr)\<close>: the path must be a string.\<close>

definition os_path_exists :: "('d, 'i, 'a, 'm, 'z) precomp_env_scheme \<Rightarrow> pyval \<Rightarrow> error + bool" where
  "os_path_exists env p = (case p of PStr s \<Rightarrow> Inr (path_exists env s) | _ \<Rightarrow> Inl TypeError)"

definition os_mkdir :: "pyval \<Rightarrow> (('a, 'w) event, unit) run" where
  "os_mkdir p = (case p of PStr s \<Rightarrow> emit (Mkdir s) | _ \<Rightarrow> lift (Inl TypeError))"

definition np_save :: "pyval \<Rightarrow> 'a ndarray \<Rightarrow> (('a, 'w) event, unit) run" where
  "np_save p arr = (case p of PStr s \<Rightarrow> emit (NpSave s arr) | _ \<Rightarrow> lift (Inl TypeError))"

subsection \<open>main\<close>

text \<open>Lines 70 to 73: the dataset is loaded with the split \<^verbatim>\<open>all\<close>.\<close>

definition load_data ::
  "('d, 'i, 'a, 'm, 'z) precomp_env_scheme \<Rightarrow> namespace \<Rightarrow> (('a, 'w) event, 'd) run" where
  "load_data env args =
     then_run (emit (Print ''A) Load data'')) (\<lambda>_.
     then_run (lift (getattr args ''data_path'')) (\<lambda>root.
     then_run (emit (LoadData ''all'' [root])) (\<lambda>_.
     lift (VstsCaptions env root))))"

text \<open>
  The condition of lines 75 and 83: \<^verbatim>\<open>needle in args.modality and args.model != "univse"\<close>,
  the second operand evaluated only when the first holds.
\<close>

definition in_modality_and_not_univse :: "string \<Rightarrow> namespace \<Rightarrow> error + bool" where
  "in_modality_and_not_univse needle args =
     bindE (getattr args ''modality'') (\<lambda>modality.
     bindE (py_in needle modality) (\<lambda>found.
     if found then bindE (getattr args ''model'') (\<lambda>model. Inr (model \<noteq> PStr ''univse''))
     else Inr False))"

definition quoted :: "string \<Rightarrow> string" where
  "quoted s = CHR 0x27 # s @ [CHR 0x27]"

definition warning :: "'z builtins_scheme \<Rightarrow> string \<Rightarrow> pyval \<Rightarrow> string" where
  "warning bi what model =
     ''WARNING: modality of embedding changed from '' @ quoted what @ '' to '' @ quoted ''sent''
     @ '', as '' @ fstr bi [] model @ '' has only sentence embeddings as output.''"

text \<open>Lines 75 to 81.\<close>

definition adjust_cap :: "'z builtins_scheme \<Rightarrow> namespace \<Rightarrow> (('a, 'w) event, namespace) run" where
  "adjust_cap bi args =
     then_run (lift (in_modality_and_not_univse ''cap'' args)) (\<lambda>c.
     if c then
       then_run (lift (bindE (getattr args ''modality'') (py_in ''img''))) (\<lambda>has_img.
       let args = (if has_img then args(''modality'' \<mapsto> PStr ''sent+img'')
                   else args(''modality'' \<mapsto> PStr ''sent'')) in
       then_run (lift (getattr args ''model'')) (\<lambda>model.
       then_run (emit (Print (warning bi ''cap'' model))) (\<lambda>_.
       ret args)))
     else ret args)"

text \<open>Lines 83 to 89: the inner test looks for \<^verbatim>\<open>comp\<close> again.\<close>

definition adjust_comp :: "'z builtins_scheme \<Rightarrow> namespace \<Rightarrow> (('a, 'w) event, namespace) run" where
  "adjust_comp bi args =
     then_run (lift (in_modality_and_not_univse ''comp'' args)) (\<lambda>c.
     if c then
       then_run (lift (bindE (getattr args ''modality'') (py_in ''comp''))) (\<lambda>has_comp.
       let args = (if has_comp then args(''modality'' \<mapsto> PStr ''comp+img'')
                   else args(''modality'' \<mapsto> PStr ''comp'')) in
       then_run (lift (getattr args ''model'')) (\<lambda>model.
       then_run (emit (Print (warning bi ''comp'' model))) (\<lambda>_.
       ret args)))
     else ret args)"

definition adjust_modality :: "'z builtins_scheme \<Rightarrow> namespace \<Rightarrow> (('a, 'w) event, namespace) run" where
  "adjust_modality bi args = then_run (adjust_cap bi args) (adjust_comp bi)"

text \<open>
  Lines 91 to 107. The last branch prints an error and returns from \<^verbatim>\<open>main\<close>: the result
  is \<open>None\<close> then. \<^verbatim>\<open>model.to(device)\<close> and \<^verbatim>\<open>model.eval()\<close> are part of what \<open>forward\<close>
  stands for.
\<close>

definition load_model_stage ::
  "('d, 'i, 'a, 'm, 'z) precomp_env_scheme \<Rightarrow> namespace \<Rightarrow> (('a, 'w) event, 'm option) run" where
  "load_model_stage env args =
     then_run (emit (Print ''B) Load model'')) (\<lambda>_.
     then_run (lift (getattr args ''model'')) (\<lambda>name.
     if name = PStr ''vse++'' then lift (Inl NotImplementedError)
     else if name = PStr ''simp_univse'' then
       then_run (lift (getattr args ''vocab_path'')) (\<lambda>vocab_path.
       then_run (emit (LoadModel ''simp_univse'' [vocab_path])) (\<lambda>_.
       then_run (lift (simp_univse_from_filename env vocab_path)) (\<lambda>model.
       then_run (lift (getattr args ''model_path'')) (\<lambda>model_path.
       then_run (lift (load_model env model model_path)) (\<lambda>model.
       ret (Some model))))))
     else if name = PStr ''univse'' then
       then_run (lift (getattr args ''vocab_path'')) (\<lambda>vocab_path.
       then_run (emit (LoadModel ''univse'' [vocab_path])) (\<lambda>_.
       then_run (lift (univse_from_filename env vocab_path)) (\<lambda>model.
       then_run (lift (getattr args ''model_path'')) (\<lambda>model_path.
       then_run (lift (load_model env model model_path)) (\<lambda>model.
       then_run (lift (getattr args ''graph_path'')) (\<lambda>graph_path.
       then_run (lift (add_graphs env model graph_path)) (\<lambda>model.
       ret (Some model))))))))
     else
       then_run (emit (Print ''ERROR: model name unknown.'')) (\<lambda>_.
       ret None)))"

text \<open>
  Lines 127 to 147: the chain of comparisons of \<^verbatim>\<open>args.modality\<close>, each branch assigning
  \<^verbatim>\<open>current_emb_1\<close> and then \<^verbatim>\<open>current_emb_2\<close>.
\<close>

definition single ::
  "string \<Rightarrow> (string \<rightharpoonup> 'a list list) \<Rightarrow> (string \<rightharpoonup> 'a list list)
     \<Rightarrow> error + 'a list list \<times> 'a list list" where
  "single key embeddings_1 embeddings_2 =
     bindE (getitem embeddings_1 key) (\<lambda>current_emb_1.
     bindE (getitem embeddings_2 key) (\<lambda>current_emb_2.
     Inr (current_emb_1, current_emb_2)))"

definition with_img ::
  "string \<Rightarrow> (string \<rightharpoonup> 'a list list) \<Rightarrow> (string \<rightharpoonup> 'a list list)
     \<Rightarrow> error + 'a list list \<times> 'a list list" where
  "with_img key embeddings_1 embeddings_2 =
     bindE (getitem embeddings_1 key) (\<lambda>x1.
     bindE (getitem embeddings_1 ''img_emb'') (\<lambda>y1.
     bindE (torch_cat x1 y1) (\<lambda>current_emb_1.
     bindE (getitem embeddings_2 key) (\<lambda>x2.
     bindE (getitem embeddings_2 ''img_emb'') (\<lambda>y2.
     bindE (torch_cat x2 y2) (\<lambda>current_emb_2.
     Inr (current_emb_1, current_emb_2)))))))"

definition select_embeddings ::
  "namespace \<Rightarrow> (string \<rightharpoonup> 'a list list) \<Rightarrow> (string \<rightharpoonup> 'a list list)
     \<Rightarrow> error + 'a list list \<times> 'a list list" where
  "select_embeddings args embeddings_1 embeddings_2 =
     bindE (getattr args ''modality'') (\<lambda>modality.
     if modality = PStr ''img'' then single ''img_emb'' embeddings_1 embeddings_2
     else if modality = PStr ''cap'' then single ''cap_emb'' embeddings_1 embeddings_2
     else if modality = PStr ''sent'' then single ''sent_emb'' embeddings_1 embeddings_2
     else if modality = PStr ''comp'' then single ''comp_emb'' embeddings_1 embeddings_2
     else if modality = PStr ''cap+img'' then with_img ''cap_emb'' embeddings_1 embeddings_2
     else if modality = PStr ''sent+img'' then with_img ''sent_emb'' embeddings_1 embeddings_2
     else with_img ''comp_emb'' embeddings_1 embeddings_2)"

text \<open>Lines 122 to 151: the body of the loop over the instances.\<close>

definition process_instance ::
  "('d, 'i, 'a, 'm, 'z) precomp_env_scheme \<Rightarrow> 'm \<Rightarrow> namespace \<Rightarrow> ('i, 'a) vsts_batch
     \<Rightarrow> (('a, 'w) event, 'a list \<times> 'a list \<times> 'a) run" where
  "process_instance env model args batch =
     (case batch of (img_1, sent_1, img_2, sent_2, sim) \<Rightarrow>
       then_run (emit ModelCall) (\<lambda>_.
       then_run (lift (forward env model img_1 sent_1)) (\<lambda>embeddings_1.
       then_run (emit ModelCall) (\<lambda>_.
       then_run (lift (forward env model img_2 sent_2)) (\<lambda>embeddings_2.
       then_run (lift (select_embeddings args embeddings_1 embeddings_2)) (\<lambda>(current_emb_1, current_emb_2).
       then_run (lift (index0 current_emb_1)) (\<lambda>row_1.
       then_run (lift (index0 current_emb_2)) (\<lambda>row_2.
       then_run (lift (index0 sim)) (\<lambda>s.
       ret (row_1, row_2, s))))))))))"

text \<open>Lines 117 to 151: the loop, with the three lists it appends to.\<close>

fun obtain_embeddings ::
  "('d, 'i, 'a, 'm, 'z) precomp_env_scheme \<Rightarrow> 'm \<Rightarrow> namespace
     \<Rightarrow> (error + ('i, 'a) vsts_batch) list
     \<Rightarrow> 'a list list \<times> 'a list list \<times> 'a list
     \<Rightarrow> (('a, 'w) event, 'a list list \<times> 'a list list \<times> 'a list) run" where
  "obtain_embeddings env model args [] acc = ret acc"
| "obtain_embeddings env model args (next_batch # generator) (embs1, embs2, sims) =
     then_run (lift next_batch) (\<lambda>batch.
     then_run (process_instance env model args batch) (\<lambda>(row_1, row_2, s).
     obtain_embeddings env model args generator (embs1 @ [row_1], embs2 @ [row_2], sims @ [s])))"

text \<open>
  Lines 153 to 168. \<^verbatim>\<open>np.asarray\<close> turns the list of rows into a two-dimensional array
  and the list of scores into a one-dimensional one.
\<close>

definition save_embeddings ::
  "('d, 'i, 'a, 'm, 'z) precomp_env_scheme \<Rightarrow> namespace \<Rightarrow> 'a list list \<Rightarrow> 'a list list \<Rightarrow> 'a list
     \<Rightarrow> (('a, 'w) event, unit) run" where
  "save_embeddings env args embs1 embs2 sims =
     then_run (emit (Print (''Emb. 1: '' @ shape_repr env (Arr2 embs1)))) (\<lambda>_.
     then_run (emit (Print (''Emb. 2: '' @ shape_repr env (Arr2 embs2)))) (\<lambda>_.
     then_run (emit (Print (''Sim: '' @ shape_repr env (Arr1 sims)))) (\<lambda>_.
     then_run (lift (getattr args ''output_path'')) (\<lambda>output_path.
     then_run (lift (os_path_exists env output_path)) (\<lambda>ex.
     then_run (if \<not> ex then os_mkdir output_path else ret ()) (\<lambda>_.
     then_run (lift (getattr args ''model'')) (\<lambda>model.
     then_run (lift (getattr args ''modality'')) (\<lambda>modality.
     then_run (lift (bindE (py_concat output_path (PStr ''/'')) (\<lambda>p.
                     bindE (py_concat p model) (\<lambda>p.
                     bindE (py_concat p (PStr ''_'')) (\<lambda>p.
                     bindE (py_concat p modality) (\<lambda>p.
                     py_concat p (PStr ''_emb_1.npy''))))))) (\<lambda>file_1.
     then_run (np_save file_1 (Arr2 embs1)) (\<lambda>_.
     then_run (lift (bindE (py_concat output_path (PStr ''/'')) (\<lambda>p.
                     bindE (py_concat p model) (\<lambda>p.
                     bindE (py_concat p (PStr ''_'')) (\<lambda>p.
                     bindE (py_concat p modality) (\<lambda>p.
                     py_concat p (PStr ''_emb_2.npy''))))))) (\<lambda>file_2.
     then_run (np_save file_2 (Arr2 embs2)) (\<lambda>_.
     then_run (lift (py_concat output_path (PStr ''/sim.npy''))) (\<lambda>file_3.
     np_save file_3 (Arr1 sims))))))))))))))"

text \<open>
  \<^verbatim>\<open>main\<close> up to the end of the loop over the instances (lines 70 to 151), run on the
  namespace \<^verbatim>\<open>args\<close>: the result is \<open>None\<close> when \<^verbatim>\<open>main\<close> has returned early, and
  otherwise the namespace as the script has changed it and the three lists.
\<close>

definition compute_embeddings ::
  "('d, 'i, 'a, 'm, 'z) precomp_env_scheme \<Rightarrow> namespace
     \<Rightarrow> (('a, 'w) event, (namespace \<times> 'a list list \<times> 'a list list \<times> 'a list) option) run" where
  "compute_embeddings env args =
     then_run (load_data env args) (\<lambda>all_data.
     then_run (adjust_modality env args) (\<lambda>args.
     then_run (load_model_stage env args) (\<lambda>loaded.
     case loaded of
       None \<Rightarrow> ret None
     | Some model \<Rightarrow>
         then_run (obtain_embeddings env model args (DataLoader env all_data 1) ([], [], [])) (\<lambda>(embs1, embs2, sims).
         ret (Some (args, embs1, embs2, sims))))))"

definition precomp_main_body ::
  "('d, 'i, 'a, 'm, 'z) precomp_env_scheme \<Rightarrow> namespace \<Rightarrow> (('a, 'w) event, unit) run" where
  "precomp_main_body env args =
     then_run (compute_embeddings env args) (\<lambda>r.
     case r of
       None \<Rightarrow> ret ()
     | Some (args, embs1, embs2, sims) \<Rightarrow> save_embeddings env args embs1 embs2 sims)"

definition precomp_main ::
  "('d, 'i, 'a, 'm, 'z) precomp_env_scheme \<Rightarrow> string list \<Rightarrow> (('a, 'w) event, unit) run" where
  "precomp_main env argv =
     then_run (lift (precomp_parse_args env argv)) (precomp_main_body env)"

section \<open>finetune\_snli\_ve.py\<close>

subsection \<open>parse\_args\<close>

definition finetune_arguments :: "argument list" where
  "finetune_arguments =
     [store_true ''--plot'',
      store_true ''--eval'',
      store ''--epochs'' TInt (PInt 300),
      store ''--lr'' TFloat (PFloat (1 / 10000)),
      store ''--batch-size'' TInt (PInt 128),
      store ''--input-size'' TInt (PInt 1024),
      store ''--hidden-size'' TInt (PInt 100),
      store ''--momentum'' TFloat (PFloat 0),
      store ''--weight-decay'' TFloat (PFloat 0),
      store ''--dropout'' TFloat (PFloat 0),
      store_true ''--batch-norm'',
      store ''--emb-file'' TStr PNone,
      store ''--label-file'' TStr PNone,
      store ''--output-path'' TStr PNone]"

definition finetune_parse_args :: "'z builtins_scheme \<Rightarrow> string list \<Rightarrow> error + namespace" where
  "finetune_parse_args bi argv = argparse bi finetune_arguments argv"

subsection \<open>Framework calls\<close>

text \<open>
  The framework and the repository modules that are not in the sources. A dataset \<open>'d\<close> is
  built by \<^verbatim>\<open>snli.SnliVECaptionsPrecomp\<close> and has a \<^verbatim>\<open>label\<close> attribute; a loader \<open>'g\<close> is
  built by \<^verbatim>\<open>data.DataLoader\<close>, and \<open>batches g k\<close> is what iterating it yields when it has
  been iterated \<open>k\<close> times before: a list of batches, each fetched when the loop reaches it
  (an exception raised while fetching surfaces there). A batch is the sequence of tensors
  that unpacking it gives. The model \<open>'m\<close> is the classifier on its device; calling it may
  update its buffers and depends on the mode set by \<^verbatim>\<open>model.train()\<close> or
  \<^verbatim>\<open>model.eval()\<close>. \<open>criterion\<close> stands for lines 188 and 189, \<open>sgd_step\<close> for lines
  192 to 194, \<open>loss_item\<close> for line 196 and \<open>predict\<close> for lines 116 to 118.
\<close>

record ('d, 'g, 't, 'm, 'o, 'lg, 'l, 'w) finetune_env = builtins +
  SnliVECaptionsPrecomp :: "pyval \<Rightarrow> pyval \<Rightarrow> string \<Rightarrow> error + 'd"
  label :: "'d \<Rightarrow> int list"
  new_DataLoader :: "'d \<Rightarrow> pyval \<Rightarrow> bool \<Rightarrow> error + 'g"
  batches :: "'g \<Rightarrow> nat \<Rightarrow> (error + 't list) list"
  SnliClassifier :: "pyval \<Rightarrow> pyval \<Rightarrow> pyval \<Rightarrow> pyval \<Rightarrow> error + 'm"
  SGD :: "'m \<Rightarrow> pyval \<Rightarrow> pyval \<Rightarrow> pyval \<Rightarrow> error + 'o"
  call_model :: "bool \<Rightarrow> 'm \<Rightarrow> 't \<Rightarrow> error + 'm \<times> 'lg"
  criterion :: "'m \<Rightarrow> 'lg \<Rightarrow> 't \<Rightarrow> error + 'l"
  sgd_step :: "'m \<Rightarrow> 'o \<Rightarrow> 'l \<Rightarrow> error + 'm \<times> 'o"
  loss_item :: "'l \<Rightarrow> error + real"
  state_dict :: "'m \<Rightarrow> 'w"
  load_state_dict :: "'m \<Rightarrow> 'w \<Rightarrow> error + 'm"
  predict :: "'m \<Rightarrow> 't \<Rightarrow> 't \<Rightarrow> error + int list"

text \<open>Unpacking a batch into two and into three names.\<close>

definition unpack2 :: "'t list \<Rightarrow> error + 't \<times> 't" where
  "unpack2 batch = (case batch of [x, y] \<Rightarrow> Inr (x, y) | _ \<Rightarrow> Inl ValueError)"

definition unpack3 :: "'t list \<Rightarrow> error + 't \<times> 't \<times> 't" where
  "unpack3 batch = (case batch of [x, y, z] \<Rightarrow> Inr (x, y, z) | _ \<Rightarrow> Inl ValueError)"

text \<open>The truth value of \<^verbatim>\<open>if x:\<close>.\<close>

definition truthy :: "pyval \<Rightarrow> bool" where
  "truthy x = (case x of PNone \<Rightarrow> False | PBool b \<Rightarrow> b | PInt i \<Rightarrow> i \<noteq> 0
                       | PFloat r \<Rightarrow> r \<noteq> 0 | PStr s \<Rightarrow> s \<noteq> [])"

text \<open>
  \<^verbatim>\<open>range(1, x + 1)\<close>: the number of values it yields; the bounds of a range must be
  integers (a boolean counts as one).
\<close>

definition range_from_1 :: "pyval \<Rightarrow> error + nat" where
  "range_from_1 x = (case x of PInt i \<Rightarrow> Inr (nat i) | PBool b \<Rightarrow> Inr (if b then 1 else 0)
                             | _ \<Rightarrow> Inl TypeError)"

text \<open>\<^verbatim>\<open>f"{x:spec}"\<close> with a numeric format specification.\<close>

definition format_number :: "'z builtins_scheme \<Rightarrow> string \<Rightarrow> pyval \<Rightarrow> error + string" where
  "format_number bi spec x = (case x of PNone \<Rightarrow> Inl TypeError | PStr _ \<Rightarrow> Inl ValueError
                                      | _ \<Rightarrow> Inr (py_format bi spec x))"

text \<open>\<^verbatim>\<open>os.path.join(a, b)\<close> for a relative \<open>b\<close>.\<close>

definition os_path_join :: "pyval \<Rightarrow> string \<Rightarrow> error + string" where
  "os_path_join a b =
     (case a of
        PStr s \<Rightarrow> Inr (if s = [] \<or> last s = CHR ''/'' then s @ b else s @ ''/'' @ b)
      | _ \<Rightarrow> Inl TypeError)"

subsection \<open>inference\<close>

text \<open>Lines 109 to 120.\<close>

fun inference ::
  "('d, 'g, 't, 'm, 'o, 'lg, 'l, 'w, 'z) finetune_env_scheme \<Rightarrow> (error + 't list) list \<Rightarrow> 'm \<Rightarrow> int list
     \<Rightarrow> (('a, 'w) event, int list) run" where
  "inference env [] model all_logits = ret all_logits"
| "inference env (next_batch # data_gen) model all_logits =
     then_run (lift next_batch) (\<lambda>batch.
     then_run (lift (unpack3 batch)) (\<lambda>(emb_1, emb_2, _).
     then_run (emit ModelCall) (\<lambda>_.
     then_run (lift (predict env model emb_1 emb_2)) (\<lambda>pred_labels.
     inference env data_gen model (all_logits @ pred_labels)))))"

subsection \<open>main\<close>

text \<open>Lines 127 to 133.\<close>

definition load_snli ::
  "('d, 'g, 't, 'm, 'o, 'lg, 'l, 'w, 'z) finetune_env_scheme \<Rightarrow> namespace \<Rightarrow> string
     \<Rightarrow> (('a, 'w) event, 'd) run" where
  "load_snli env args split =
     then_run (lift (getattr args ''emb_file'')) (\<lambda>emb_file.
     then_run (lift (getattr args ''sim_file'')) (\<lambda>sim_file.
     then_run (emit (LoadData split [emb_file, sim_file])) (\<lambda>_.
     lift (SnliVECaptionsPrecomp env emb_file sim_file split))))"

definition finetune_load_data ::
  "('d, 'g, 't, 'm, 'o, 'lg, 'l, 'w, 'z) finetune_env_scheme \<Rightarrow> namespace
     \<Rightarrow> (('a, 'w) event, 'd \<times> 'd) run" where
  "finetune_load_data env args =
     then_run (emit (Print ''A) Load data'')) (\<lambda>_.
     then_run (load_snli env args ''train'') (\<lambda>train_data.
     then_run (load_snli env args ''dev'') (\<lambda>dev_data.
     ret (train_data, dev_data))))"

text \<open>Lines 135 to 144.\<close>

definition finetune_load_model ::
  "('d, 'g, 't, 'm, 'o, 'lg, 'l, 'w, 'z) finetune_env_scheme \<Rightarrow> namespace
     \<Rightarrow> (('a, 'w) event, 'm \<times> 'o) run" where
  "finetune_load_model env args =
     then_run (emit (Print ''B) Load model'')) (\<lambda>_.
     then_run (lift (getattr args ''input_size'')) (\<lambda>input_size.
     then_run (lift (getattr args ''hidden_size'')) (\<lambda>hidden_size.
     then_run (lift (getattr args ''dropout'')) (\<lambda>dropout.
     then_run (lift (getattr args ''batch_norm'')) (\<lambda>batch_norm.
     then_run (emit (LoadModel ''SnliClassifier'' [input_size, hidden_size, dropout, batch_norm])) (\<lambda>_.
     then_run (lift (SnliClassifier env input_size hidden_size dropout batch_norm)) (\<lambda>model.
     then_run (lift (getattr args ''lr'')) (\<lambda>lr.
     then_run (lift (getattr args ''weight_decay'')) (\<lambda>weight_decay.
     then_run (lift (getattr args ''momentum'')) (\<lambda>momentum.
     then_run (lift (SGD env model lr weight_decay momentum)) (\<lambda>optimizer.
     ret (model, optimizer))))))))))))"

text \<open>
  Lines 146 to 159. The batch size of \<^verbatim>\<open>eval_params\<close> is returned with the two generators,
  as the evaluation at the end of \<^verbatim>\<open>main\<close> builds two more loaders from that dictionary.
\<close>

definition make_generators ::
  "('d, 'g, 't, 'm, 'o, 'lg, 'l, 'w, 'z) finetune_env_scheme \<Rightarrow> namespace \<Rightarrow> 'd \<Rightarrow> 'd
     \<Rightarrow> (('a, 'w) event, 'g \<times> 'g \<times> pyval) run" where
  "make_generators env args train_data dev_data =
     then_run (emit (Print ''C) Train model'')) (\<lambda>_.
     then_run (lift (getattr args ''batch_size'')) (\<lambda>train_batch_size.
     then_run (lift (new_DataLoader env train_data train_batch_size True)) (\<lambda>train_gen.
     then_run (lift (getattr args ''batch_size'')) (\<lambda>eval_batch_size.
     then_run (lift (new_DataLoader env dev_data eval_batch_size False)) (\<lambda>dev_gen.
     ret (train_gen, dev_gen, eval_batch_size))))))"

text \<open>
  The variables that the epoch loop changes; \<open>cur_model\<close> and \<open>cur_optimizer\<close> are the
  objects that the script calls \<^verbatim>\<open>model\<close> and \<^verbatim>\<open>optimizer\<close>.
\<close>

record ('m, 'o, 'w) training =
  cur_model :: 'm
  cur_optimizer :: 'o
  train_losses :: "real list"
  dev_losses :: "real list"
  best_model_wts :: 'w
  best_loss :: real

text \<open>Lines 185 to 198: the body of the loop over the batches of one phase.\<close>

definition batch_step ::
  "('d, 'g, 't, 'm, 'o, 'lg, 'l, 'w, 'z) finetune_env_scheme \<Rightarrow> string \<Rightarrow> 'm \<times> 'o \<times> real \<times> nat \<Rightarrow> 't list
     \<Rightarrow> (('a, 'w) event, 'm \<times> 'o \<times> real \<times> nat) run" where
  "batch_step env phase st current_batch =
     (case st of (model, optimizer, running_loss, idx) \<Rightarrow>
       then_run (lift (unpack2 current_batch)) (\<lambda>(emb, label).
       then_run (emit ModelCall) (\<lambda>_.
       then_run (lift (call_model env (phase = ''train'') model emb)) (\<lambda>(model, logits).
       then_run (lift (criterion env model logits label)) (\<lambda>loss.
       then_run (if phase = ''train''
                 then then_run (emit OptimStep) (\<lambda>_. lift (sgd_step env model optimizer loss))
                 else ret (model, optimizer)) (\<lambda>(model, optimizer).
       then_run (lift (loss_item env loss)) (\<lambda>batch_loss.
       ret (model, optimizer, running_loss + batch_loss, idx + 1))))))))"

text \<open>Lines 183 to 198: the loop over the batches.\<close>

fun batch_loop ::
  "('d, 'g, 't, 'm, 'o, 'lg, 'l, 'w, 'z) finetune_env_scheme \<Rightarrow> string \<Rightarrow> (error + 't list) list
     \<Rightarrow> 'm \<times> 'o \<times> real \<times> nat \<Rightarrow> (('a, 'w) event, 'm \<times> 'o \<times> real \<times> nat) run" where
  "batch_loop env phase [] st = ret st"
| "batch_loop env phase (next_batch # generator) st =
     then_run (lift next_batch) (\<lambda>current_batch.
     then_run (batch_step env phase st current_batch) (\<lambda>st.
     batch_loop env phase generator st))"

text \<open>
  Lines 172 to 212: one phase of an epoch. \<open>epoch\<close> counts the epochs completed before, which
  is also the number of earlier passes over either generator.
\<close>

definition run_phase ::
  "('d, 'g, 't, 'm, 'o, 'lg, 'l, 'w, 'z) finetune_env_scheme \<Rightarrow> 'g \<Rightarrow> 'g \<Rightarrow> nat \<Rightarrow> string
     \<Rightarrow> ('m, 'o, 'w) training \<Rightarrow> (('a, 'w) event, ('m, 'o, 'w) training) run" where
  "run_phase env train_gen dev_gen epoch phase st =
     (let generator = (if phase = ''train'' then train_gen else dev_gen) in
      then_run (batch_loop env phase (batches env generator epoch) (cur_model st, cur_optimizer st, 0, 0))
        (\<lambda>(model', optimizer', running_loss, idx).
      if idx = 0 then lift (Inl ZeroDivisionError)
      else
        let running_loss = running_loss / real idx;
            st = st\<lparr>cur_model := model', cur_optimizer := optimizer'\<rparr> in
        if phase = ''train'' then ret (st\<lparr>train_losses := train_losses st @ [running_loss]\<rparr>)
        else
          let st = st\<lparr>dev_losses := dev_losses st @ [running_loss]\<rparr> in
          if running_loss < best_loss st
          then ret (st\<lparr>best_loss := running_loss, best_model_wts := state_dict env model'\<rparr>)
          else ret st))"

text \<open>Lines 171 to 212: the training phase, then the development phase.\<close>

definition run_epoch ::
  "('d, 'g, 't, 'm, 'o, 'lg, 'l, 'w, 'z) finetune_env_scheme \<Rightarrow> 'g \<Rightarrow> 'g \<Rightarrow> nat
     \<Rightarrow> ('m, 'o, 'w) training \<Rightarrow> (('a, 'w) event, ('m, 'o, 'w) training) run" where
  "run_epoch env train_gen dev_gen epoch st =
     then_run (run_phase env train_gen dev_gen epoch ''train'' st)
              (run_phase env train_gen dev_gen epoch ''dev'')"

text \<open>
  Lines 168 to 212: the loop over the epochs, run \<open>n\<close> times from the state \<open>st\<close>.
\<close>

fun epoch_loop ::
  "('d, 'g, 't, 'm, 'o, 'lg, 'l, 'w, 'z) finetune_env_scheme \<Rightarrow> 'g \<Rightarrow> 'g \<Rightarrow> nat
     \<Rightarrow> ('m, 'o, 'w) training \<Rightarrow> (('a, 'w) event, ('m, 'o, 'w) training) run" where
  "epoch_loop env train_gen dev_gen 0 st = ret st"
| "epoch_loop env train_gen dev_gen (Suc n) st =
     then_run (epoch_loop env train_gen dev_gen n st) (run_epoch env train_gen dev_gen n)"

text \<open>Lines 161 to 212.\<close>

definition train ::
  "('d, 'g, 't, 'm, 'o, 'lg, 'l, 'w, 'z) finetune_env_scheme \<Rightarrow> namespace \<Rightarrow> 'g \<Rightarrow> 'g \<Rightarrow> 'm \<Rightarrow> 'o
     \<Rightarrow> (('a, 'w) event, ('m, 'o, 'w) training) run" where
  "train env args train_gen dev_gen model0 optimizer0 =
     (let st = \<lparr>cur_model = model0, cur_optimizer = optimizer0, train_losses = [], dev_losses = [],
                best_model_wts = state_dict env model0, best_loss = 10 ^ 10\<rparr> in
      then_run (lift (bindE (getattr args ''epochs'') range_from_1)) (\<lambda>n.
      epoch_loop env train_gen dev_gen n st))"

text \<open>
  Lines 214 to 225: the best weights are loaded into the model and saved, the loss curves
  are plotted on request and the losses are pickled.
\<close>

definition save_outputs ::
  "('d, 'g, 't, 'm, 'o, 'lg, 'l, 'w, 'z) finetune_env_scheme \<Rightarrow> namespace \<Rightarrow> ('m, 'o, 'w) training
     \<Rightarrow> (('a, 'w) event, 'm) run" where
  "save_outputs env args st =
     then_run (lift (load_state_dict env (cur_model st) (best_model_wts st))) (\<lambda>model.
     then_run (lift (getattr args ''output_path'')) (\<lambda>output_path.
     then_run (lift (bindE (getattr args ''lr'') (format_number env ''.1E''))) (\<lambda>lr.
     then_run (lift (os_path_join output_path (''ft_model_lr'' @ lr @ ''.pth''))) (\<lambda>file.
     then_run (emit (TorchSave file (state_dict env model))) (\<lambda>_.
     then_run (lift (getattr args ''plot'')) (\<lambda>plot.
     then_run (if truthy plot then
                 then_run (lift (bindE (getattr args ''epochs'') range_from_1)) (\<lambda>_.
                 then_run (lift (getattr args ''output_path'')) (\<lambda>output_path.
                 then_run (lift (bindE (getattr args ''lr'') (format_number env ''.1E''))) (\<lambda>lr.
                 then_run (lift (os_path_join output_path (''training_losses_'' @ lr @ ''.png''))) (\<lambda>file.
                 emit (SaveFig file (train_losses st) (dev_losses st))))))
               else ret ()) (\<lambda>_.
     then_run (lift (getattr args ''output_path'')) (\<lambda>output_path.
     then_run (lift (os_path_join output_path ''losses.pickle'')) (\<lambda>file.
     then_run (emit (PickleDump file [(''train'', train_losses st), (''dev'', dev_losses st)])) (\<lambda>_.
     ret model))))))))))"

text \<open>Lines 242 to 246: the share of predictions that equal the label at the same position.\<close>

definition accuracy :: "int list \<Rightarrow> int list \<Rightarrow> error + real" where
  "accuracy pred labels =
     (if length pred = 0 then Inl ZeroDivisionError
      else Inr (real (length (filter (\<lambda>(x, y). x = y) (zip pred labels))) / real (length pred)))"

definition tab :: char where
  "tab = CHR 0x09"

text \<open>
  Lines 227 to 249. \<open>passes\<close> is the number of times the training loop has iterated
  \<^verbatim>\<open>dev_gen\<close>; the other two loaders are new.
\<close>

definition evaluate ::
  "('d, 'g, 't, 'm, 'o, 'lg, 'l, 'w, 'z) finetune_env_scheme \<Rightarrow> namespace \<Rightarrow> 'd \<Rightarrow> 'd \<Rightarrow> 'g \<Rightarrow> pyval
     \<Rightarrow> nat \<Rightarrow> 'm \<Rightarrow> (('a, 'w) event, unit) run" where
  "evaluate env args train_data dev_data dev_gen eval_batch_size passes model =
     then_run (lift (getattr args ''eval'')) (\<lambda>eval.
     if truthy eval then
       then_run (load_snli env args ''test'') (\<lambda>test_data.
       then_run (lift (new_DataLoader env train_data eval_batch_size False)) (\<lambda>train_gen.
       then_run (lift (new_DataLoader env test_data eval_batch_size False)) (\<lambda>test_gen.
       then_run (emit (Print ''D) Inference'')) (\<lambda>_.
       then_run (inference env (batches env train_gen 0) model []) (\<lambda>pred_train.
       then_run (inference env (batches env dev_gen passes) model []) (\<lambda>pred_dev.
       then_run (inference env (batches env test_gen 0) model []) (\<lambda>pred_test.
       then_run (emit (Print ''E) Compute Accuracy (between predicted labels and ground truth)'')) (\<lambda>_.
       then_run (lift (accuracy pred_train (label env train_data))) (\<lambda>acc_train.
       then_run (lift (accuracy pred_dev (label env dev_data))) (\<lambda>acc_dev.
       then_run (lift (accuracy pred_test (label env test_data))) (\<lambda>acc_test.
       then_run (emit (Print ([tab, tab, tab] @ ''TRAIN'' @ [tab] @ ''DEV'' @ [tab] @ ''TEST''))) (\<lambda>_.
       emit (Print (''Accuracies: '' @ py_format env ''.4f'' (PFloat acc_train) @ [tab]
                    @ py_format env ''.4f'' (PFloat acc_dev) @ [tab]
                    @ py_format env ''.4f'' (PFloat acc_test)))))))))))))))
     else ret ())"

text \<open>\<^verbatim>\<open>main\<close>, run on the namespace \<^verbatim>\<open>args\<close> (lines 127 to 249).\<close>

definition finetune_main_body ::
  "('d, 'g, 't, 'm, 'o, 'lg, 'l, 'w, 'z) finetune_env_scheme \<Rightarrow> namespace \<Rightarrow> (('a, 'w) event, unit) run" where
  "finetune_main_body env args =
     then_run (finetune_load_data env args) (\<lambda>(train_data, dev_data).
     then_run (finetune_load_model env args) (\<lambda>(model, optimizer).
     then_run (make_generators env args train_data dev_data) (\<lambda>(train_gen, dev_gen, eval_batch_size).
     then_run (train env args train_gen dev_gen model optimizer) (\<lambda>st.
     then_run (save_outputs env args st) (\<lambda>model.
     evaluate env args train_data dev_data dev_gen eval_batch_size (length (dev_losses st)) model)))))"

definition finetune_main ::
  "('d, 'g, 't, 'm, 'o, 'lg, 'l, 'w, 'z) finetune_env_scheme \<Rightarrow> string list \<Rightarrow> (('a, 'w) event, unit) run" where
  "finetune_main env argv =
     then_run (lift (finetune_parse_args env argv)) (finetune_main_body env)"

section \<open>Example environments\<close>

text \<open>
  Small environments on which the scripts can be evaluated: no string converts to a
  number, every value is formatted as \<^verbatim>\<open>?\<close>.
\<close>

definition example_int :: "string \<Rightarrow> int option" where
  "example_int s = None"

definition example_float :: "string \<Rightarrow> real option" where
  "example_float s = None"

definition example_format :: "string \<Rightarrow> pyval \<Rightarrow> string" where
  "example_format spec x = ''?''"

text \<open>
  A dataset of two instances; the model gives every image the embedding \<open>[[3]]\<close> and every
  sentence the embedding \<open>[[1, 2]]\<close>, and has no other embeddings. No path exists yet.
\<close>

definition example_rows :: "(nat, int) vsts_row list" where
  "example_rows = [(10, ''a dog'', 11, ''a cat'', 4), (12, ''a man'', 13, ''a boy'', 2)]"

definition example_precomp_env :: "(unit, nat, int, unit) precomp_env" where
  "example_precomp_env =
     \<lparr>py_int = example_int, py_float = example_float, py_format = example_format,
      VstsCaptions = (\<lambda>root. Inr ()),
      vsts_len = (\<lambda>d. length example_rows),
      vsts_getitem = (\<lambda>d i. if i < length example_rows then Inr (example_rows ! i) else Inl IndexError),
      simp_univse_from_filename = (\<lambda>vocab. Inr ()),
      univse_from_filename = (\<lambda>vocab. Inr ()),
      load_model = (\<lambda>m path. Inr m),
      add_graphs = (\<lambda>m path. Inr m),
      forward = (\<lambda>m img sent. Inr [''sent_emb'' \<mapsto> [[1, 2]], ''img_emb'' \<mapsto> [[3]]]),
      path_exists = (\<lambda>p. False),
      shape_repr = (\<lambda>arr. ''?'')\<rparr>"

text \<open>
  A model whose state is one number: a training step adds one to it, the loss of a batch
  is the number the batch holds first, and the state dictionary is the state itself.
\<close>

definition example_finetune_env :: "(unit, real list, real, real, unit, unit, real, real) finetune_env" where
  "example_finetune_env =
     \<lparr>py_int = example_int, py_float = example_float, py_format = example_format,
      SnliVECaptionsPrecomp = (\<lambda>emb lab split. Inr ()),
      label = (\<lambda>d. []),
      new_DataLoader = (\<lambda>d batch_size shuffle. Inr (if shuffle then [1, 3] else [5, 2])),
      batches = (\<lambda>g k. map (\<lambda>x. Inr [x, 0]) g),
      SnliClassifier = (\<lambda>input_dim hidden_dim dropout batch_norm. Inr 0),
      SGD = (\<lambda>m lr weight_decay momentum. Inr ()),
      call_model = (\<lambda>training m emb. Inr (m, ())),
      criterion = (\<lambda>m logits lab. Inr (if m < 2 then 7 - m else m)),
      sgd_step = (\<lambda>m opt loss. Inr (m + 1, opt)),
      loss_item = (\<lambda>loss. Inr loss),
      state_dict = (\<lambda>m. m),
      load_state_dict = (\<lambda>m w. Inr w),
      predict = (\<lambda>m emb_1 emb_2. Inr [])\<rparr>"

section \<open>Properties\<close>

subsection \<open>Runs and the argument parser\<close>

lemma then_run_ret [simp]: "then_run (ret x) f = f x"
  by (cases "f x") (simp add: ret_def)

lemma then_run_lift_Inr [simp]: "then_run (lift (Inr x)) f = f x"
  by (cases "f x") (simp add: lift_def)

lemma then_run_lift_Inl [simp]: "then_run (lift (Inl e)) f = ([], Inl e)"
  by (simp add: lift_def)

lemma then_run_emit [simp]: "then_run (emit ev) f = (ev # fst (f ()), snd (f ()))"
  by (cases "f ()") (simp add: emit_def)

lemma fst_then_run:
  "fst (then_run m f) = fst m @ (case snd m of Inl e \<Rightarrow> [] | Inr x \<Rightarrow> fst (f x))"
  by (cases m; cases "snd m") (auto split: prod.splits)

lemma snd_then_run:
  "snd (then_run m f) = (case snd m of Inl e \<Rightarrow> Inl e | Inr x \<Rightarrow> snd (f x))"
  by (cases m; cases "snd m") (auto split: prod.splits)

lemma then_run_lift: "then_run (lift r) f = (case r of Inl e \<Rightarrow> ([], Inl e) | Inr x \<Rightarrow> f x)"
  by (cases r) simp_all

lemma bindE_Inr [simp]: "bindE (Inr x) f = f x"
  by (simp add: bindE_def)

lemma bindE_Inl [simp]: "bindE (Inl e) f = Inl e"
  by (simp add: bindE_def)

lemma find_option_mem: "find_option specs tok = Some (Opt a e) \<Longrightarrow> a \<in> set specs"
  unfolding find_option_def
  apply (auto split: if_splits option.splits prod.splits list.splits bool.splits simp: find_Some_iff)
  apply (metis filter_eq_Cons_iff in_set_conv_decomp)
  done

lemma parse_known_invariant:
  assumes "parse_known bi specs ns toks = Inr ns'"
    and "P ns"
    and "\<And>ns a. P ns \<Longrightarrow> a \<in> set specs \<Longrightarrow> action a = StoreTrue \<Longrightarrow> P (ns(dest a \<mapsto> PBool True))"
    and "\<And>ns a s v. P ns \<Longrightarrow> a \<in> set specs \<Longrightarrow> convert bi a s = Some v \<Longrightarrow> P (ns(dest a \<mapsto> v))"
  shows "P ns'"
  using assms
proof (induction bi specs ns toks rule: parse_known.induct)
  case (1 bi specs ns)
  then show ?case by simp
next
  case (2 bi specs ns tok rest)
  show ?case
  proof (cases "tok = ''--'' \<and> rest = []")
    case True
    with 2 show ?thesis by simp
  next
    case False
    with "2.prems" obtain a explicit where f: "find_option specs tok = Some (Opt a explicit)"
      by (auto split: option.splits matched.splits)
    then have mem: "a \<in> set specs" by (rule find_option_mem)
    show ?thesis
    proof (cases "action a")
      case StoreTrue
      with "2.prems" False f have e: "explicit = None"
        and r: "parse_known bi specs (ns(dest a \<mapsto> PBool True)) rest = Inr ns'"
        by (auto split: option.splits)
      show ?thesis
        by (rule "2.IH"(1)[OF False f refl StoreTrue e r _ "2.prems"(3,4)])
           (rule "2.prems"(3)[OF "2.prems"(2) mem StoreTrue])
    next
      case (Store ty)
      show ?thesis
      proof (cases explicit)
        case (Some s)
        with "2.prems" False f Store obtain v where c: "convert bi a s = Some v"
          and r: "parse_known bi specs (ns(dest a \<mapsto> v)) rest = Inr ns'"
          by (auto split: option.splits)
        show ?thesis
          by (rule "2.IH"(3)[OF False f refl Store Some c r _ "2.prems"(3,4)])
             (rule "2.prems"(4)[OF "2.prems"(2) mem c])
      next
        case None
        with "2.prems" False f Store obtain s rest' v where rest: "rest = s # rest'"
          and c: "convert bi a s = Some v"
          and r: "parse_known bi specs (ns(dest a \<mapsto> v)) rest' = Inr ns'"
          by (auto split: option.splits list.splits)
        show ?thesis
          by (rule "2.IH"(2)[OF False f refl Store None rest c r _ "2.prems"(3,4)])
             (rule "2.prems"(4)[OF "2.prems"(2) mem c])
      qed
    qed
  qed
qed

lemma dom_defaults: "dom (defaults specs) = dest ` set specs"
  by (simp add: defaults_def dom_map_of_conv_image_fst image_image)

lemma dom_argparse:
  assumes "argparse bi specs argv = Inr ns"
  shows "dom ns = dest ` set specs"
proof -
  from assms have "parse_known bi specs (defaults specs) argv = Inr ns"
    by (simp add: argparse_def)
  then show ?thesis
    by (rule parse_known_invariant [where P = "\<lambda>ns. dom ns = dest ` set specs"])
       (auto simp: dom_defaults)
qed


lemma dests_finetune:
  "dest ` set finetune_arguments =
     {''plot'', ''eval'', ''epochs'', ''lr'', ''batch_size'', ''input_size'', ''hidden_size'',
      ''momentum'', ''weight_decay'', ''dropout'', ''batch_norm'', ''emb_file'', ''label_file'',
      ''output_path''}"
  by (simp add: finetune_arguments_def store_def store_true_def dest_def)

lemma getattr_dom: "getattr ns k = (if k \<in> dom ns then Inr (the (ns k)) else Inl AttributeError)"
  by (auto simp: getattr_def split: option.splits)

subsection \<open>finetune\_snli\_ve.py never gets past loading the data\<close>

text \<open>
  Claim C2. Whatever command line \<^verbatim>\<open>parse_args\<close> of \<^verbatim>\<open>finetune_snli_ve.py\<close> accepts,
  \<^verbatim>\<open>main\<close> raises AttributeError while it builds the training dataset: it reads
  \<^verbatim>\<open>args.sim_file\<close>, and the parser defines \<^verbatim>\<open>--label-file\<close> and \<^verbatim>\<open>--emb-file\<close> but no
  option of that name. The only effect of the run is the banner printed before; no dataset
  is built, no training step is made and no file is written.
\<close>

theorem finetune_main_AttributeError:
  assumes "finetune_parse_args env argv = Inr args"
  shows "finetune_main env argv = ([Print ''A) Load data''], Inl AttributeError)"
proof -
  have "dom args = dest ` set finetune_arguments"
    using assms unfolding finetune_parse_args_def by (rule dom_argparse)
  then have emb: "''emb_file'' \<in> dom args" and sim: "''sim_file'' \<notin> dom args"
    by (simp_all add: dests_finetune)
  with assms show ?thesis
    by (simp add: finetune_main_def finetune_main_body_def finetune_load_data_def load_snli_def
        getattr_dom)
qed

theorem finetune_main_AttributeError_witness:
  "finetune_parse_args example_finetune_env [''--label-file'', ''labels.npy'', ''--eval'']
     = Inr ((defaults finetune_arguments)(''label_file'' \<mapsto> PStr ''labels.npy'', ''eval'' \<mapsto> PBool True))
   \<and> finetune_main example_finetune_env [''--label-file'', ''labels.npy'', ''--eval'']
     = ([Print ''A) Load data''], Inl AttributeError)"
proof -
  have p: "finetune_parse_args example_finetune_env [''--label-file'', ''labels.npy'', ''--eval'']
     = Inr ((defaults finetune_arguments)(''label_file'' \<mapsto> PStr ''labels.npy'', ''eval'' \<mapsto> PBool True))"
    by (simp add: finetune_parse_args_def argparse_def find_option_def finetune_arguments_def
        store_def store_true_def dest_def convert_def)
  show ?thesis
    using p finetune_main_AttributeError [OF p] by simp
qed



end
